theory Spec2Isabelle
  imports Complex_Main
begin

section \<open>Data model of the price predictor page\<close>

text \<open>
  The page component keeps eleven pieces of \<open>useState\<close> state. They are collected in
  one record; every setter call of the source is a record update, in the source's order.
  Strings are lists of 8-bit characters, read as code units in the range 0 to 255.
\<close>

record FormData =
  Sqft :: string
  Location :: string
  PropertyType :: string
  Status :: string

record FormOptions =
  locations :: "string list"
  property_types :: "string list"
  statuses :: "string list"

record TopFeature =
  feature :: string
  impact :: real

record PredictionResponse =
  predicted_price :: real
  shap_image_base64 :: string
  top_features :: "TopFeature list"
  base_value :: real

text \<open>
  The field \<open>locations\<close> of the interface \<open>MarketInsights\<close> is called
  \<open>market_locations\<close> here, since \<open>FormOptions\<close> has a field of the same name.
\<close>

record MarketInsights =
  status :: string
  selected_city :: string
  market_locations :: "string list"
  median_prices :: "real list"
  counts :: "real list"

record page_state =
  formData :: FormData
  formOptions :: FormOptions
  formOptionsLoading :: bool
  loading :: bool
  result :: "PredictionResponse option"
  error :: "string option"
  sqftError :: "string option"
  marketData :: "MarketInsights option"
  marketLoading :: bool
  marketError :: "string option"
  shapImgError :: bool

text \<open>The initial values given to \<open>useState\<close>.\<close>

definition initial_state :: page_state where
  "initial_state =
     \<lparr>formData = \<lparr>Sqft = '''', Location = '''', PropertyType = '''', Status = ''''\<rparr>,
      formOptions = \<lparr>locations = [], property_types = [], statuses = []\<rparr>,
      formOptionsLoading = True,
      loading = False,
      result = None,
      error = None,
      sqftError = None,
      marketData = None,
      marketLoading = False,
      marketError = None,
      shapImgError = False\<rparr>"

subsection \<open>Outcomes of a request\<close>

text \<open>
  An awaited \<open>fetch\<close> either rejects (the error carries a message), or resolves with a
  response whose \<open>ok\<close> flag is false, or resolves with \<open>ok\<close> true; then
  \<open>res.json()\<close> either rejects or yields the decoded body. A rejection without a
  message is the empty message: both are falsy for the source's \<open>||\<close>.
\<close>

datatype 'a fetch_outcome =
  Rejected string
  | Not_ok
  | Json_rejected string
  | Ok_json 'a

subsection \<open>Numbers\<close>

text \<open>
  A JavaScript number is NaN, an infinity or a finite value. Every comparison with NaN
  is false.
\<close>

datatype jsnum = NaN | NegInf | Fin real | PosInf

fun isNaN :: "jsnum \<Rightarrow> bool" where
  "isNaN NaN = True"
| "isNaN _ = False"

text \<open>The comparisons \<open><\<close> and \<open><=\<close>.\<close>

fun js_less :: "jsnum \<Rightarrow> jsnum \<Rightarrow> bool" where
  "js_less NaN _ = False"
| "js_less _ NaN = False"
| "js_less (Fin a) (Fin b) = (a < b)"
| "js_less PosInf _ = False"
| "js_less _ NegInf = False"
| "js_less _ _ = True"

fun js_le :: "jsnum \<Rightarrow> jsnum \<Rightarrow> bool" where
  "js_le NaN _ = False"
| "js_le _ NaN = False"
| "js_le (Fin a) (Fin b) = (a \<le> b)"
| "js_le NegInf _ = True"
| "js_le _ PosInf = True"
| "js_le _ _ = False"

text \<open>\<open>a || b\<close> on strings: the empty string is falsy.\<close>

definition or_else :: "string \<Rightarrow> string \<Rightarrow> string" where
  "or_else a b = (if a = [] then b else a)"

section \<open>Strings and regular expressions of the platform\<close>

subsection \<open>Character classes\<close>

text \<open>
  \<open>\d\<close> is the class of the ten decimal digits and \<open>\w\<close> the class
  \<open>[A-Za-z0-9_]\<close>; the patterns of the page carry no unicode flag. \<open>\s\<close> and
  \<open>trim\<close> share one set of white space, of which the code units below 256 are
  tab, line feed, vertical tab, form feed, carriage return, space and no-break space.
\<close>

definition is_digit :: "char \<Rightarrow> bool" where
  "is_digit c = (let n = (of_char c :: nat) in 48 \<le> n \<and> n \<le> 57)"

definition is_word_char :: "char \<Rightarrow> bool" where
  "is_word_char c =
     (let n = (of_char c :: nat)
      in (65 \<le> n \<and> n \<le> 90) \<or> (97 \<le> n \<and> n \<le> 122) \<or> (48 \<le> n \<and> n \<le> 57) \<or> n = 95)"

definition is_space :: "char \<Rightarrow> bool" where
  "is_space c = (of_char c \<in> {9, 10, 11, 12, 13, 32, 160 :: nat})"

text \<open>
  \<open>toLowerCase\<close> on code units below 256: the letters A to Z and the accented capitals
  from 192 to 222 (the multiplication sign 215 apart) move up by 32.
\<close>

definition toLowerCase_char :: "char \<Rightarrow> char" where
  "toLowerCase_char c =
     (let n = (of_char c :: nat)
      in if (65 \<le> n \<and> n \<le> 90) \<or> (192 \<le> n \<and> n \<le> 222 \<and> n \<noteq> 215)
         then char_of (n + 32) else c)"

definition toLowerCase :: "string \<Rightarrow> string" where
  "toLowerCase s = map toLowerCase_char s"

definition trimStart :: "string \<Rightarrow> string" where
  "trimStart s = dropWhile is_space s"

definition trimEnd :: "string \<Rightarrow> string" where
  "trimEnd s = rev (dropWhile is_space (rev s))"

definition trim :: "string \<Rightarrow> string" where
  "trim s = trimEnd (trimStart s)"

subsection \<open>A backtracking matcher\<close>

text \<open>
  A matcher state is the character before the current position (none at the start of
  the input) and the input that is left. A pattern is a function of a state and a
  continuation, as in the matcher of the language definition: it calls the continuation
  on the state after its own match, and where that fails it tries its next alternative.
\<close>

type_synonym rx_state = "char option \<times> string"

definition at_word_boundary :: "rx_state \<Rightarrow> bool" where
  "at_word_boundary st =
     (let a = (case fst st of None \<Rightarrow> False | Some c \<Rightarrow> is_word_char c);
          b = (case snd st of [] \<Rightarrow> False | c # _ \<Rightarrow> is_word_char c)
      in a \<noteq> b)"

text \<open>The assertions \<open>\b\<close> and \<open>$\<close> (without the multiline flag).\<close>

definition rx_boundary :: "rx_state \<Rightarrow> (rx_state \<Rightarrow> 'r option) \<Rightarrow> 'r option" where
  "rx_boundary st k = (if at_word_boundary st then k st else None)"

definition rx_end :: "rx_state \<Rightarrow> (rx_state \<Rightarrow> 'r option) \<Rightarrow> 'r option" where
  "rx_end st k = (if snd st = [] then k st else None)"

text \<open>One character of a class.\<close>

definition rx_char ::
  "(char \<Rightarrow> bool) \<Rightarrow> rx_state \<Rightarrow> (rx_state \<Rightarrow> 'r option) \<Rightarrow> 'r option" where
  "rx_char P st k =
     (case snd st of [] \<Rightarrow> None | c # cs \<Rightarrow> if P c then k (Some c, cs) else None)"

text \<open>
  A literal under the \<open>i\<close> flag. The literals of the page are lower-case ASCII letters
  and a digit; such a pattern character matches itself and its capital, which are the
  characters that \<open>toLowerCase_char\<close> sends to it.
\<close>

fun rx_lit_i :: "string \<Rightarrow> rx_state \<Rightarrow> (rx_state \<Rightarrow> 'r option) \<Rightarrow> 'r option" where
  "rx_lit_i [] st k = k st"
| "rx_lit_i (x # xs) st k =
     rx_char (\<lambda>c. toLowerCase_char c = x) st (\<lambda>st'. rx_lit_i xs st' k)"

text \<open>
  The greedy quantifiers \<open>*\<close> and \<open>+\<close> on a class: take one more character as long
  as that leads to a match, otherwise go on from here.
\<close>

fun rx_star ::
  "(char \<Rightarrow> bool) \<Rightarrow> char option \<Rightarrow> string \<Rightarrow> (rx_state \<Rightarrow> 'r option) \<Rightarrow> 'r option" where
  "rx_star P p [] k = k (p, [])"
| "rx_star P p (c # cs) k =
     (if P c then
        (case rx_star P (Some c) cs k of Some r \<Rightarrow> Some r | None \<Rightarrow> k (p, c # cs))
      else k (p, c # cs))"

definition rx_plus ::
  "(char \<Rightarrow> bool) \<Rightarrow> rx_state \<Rightarrow> (rx_state \<Rightarrow> 'r option) \<Rightarrow> 'r option" where
  "rx_plus P st k =
     (case snd st of [] \<Rightarrow> None | c # cs \<Rightarrow> if P c then rx_star P (Some c) cs k else None)"

text \<open>\<open>test\<close>: the pattern matches at some position, tried from the left.\<close>

fun rx_test ::
  "(rx_state \<Rightarrow> (rx_state \<Rightarrow> rx_state option) \<Rightarrow> rx_state option) \<Rightarrow> char option \<Rightarrow> string
     \<Rightarrow> bool" where
  "rx_test m p [] = (case m (p, []) Some of Some _ \<Rightarrow> True | None \<Rightarrow> False)"
| "rx_test m p (c # cs) =
     (case m (p, c # cs) Some of Some _ \<Rightarrow> True | None \<Rightarrow> rx_test m (Some c) cs)"

subsection \<open>The patterns of the page\<close>

text \<open>\<open>/colombo\s*3$/i\<close>, \<open>/office/i\<close> and \<open>/rent/i\<close>.\<close>

definition re_colombo3 :: "rx_state \<Rightarrow> (rx_state \<Rightarrow> 'r option) \<Rightarrow> 'r option" where
  "re_colombo3 st k =
     rx_lit_i ''colombo'' st (\<lambda>s1.
       rx_star is_space (fst s1) (snd s1) (\<lambda>s2.
         rx_lit_i ''3'' s2 (\<lambda>s3.
           rx_end s3 k)))"

definition re_office :: "rx_state \<Rightarrow> (rx_state \<Rightarrow> 'r option) \<Rightarrow> 'r option" where
  "re_office st k = rx_lit_i ''office'' st k"

definition re_rent :: "rx_state \<Rightarrow> (rx_state \<Rightarrow> 'r option) \<Rightarrow> 'r option" where
  "re_rent st k = rx_lit_i ''rent'' st k"

text \<open>
  \<open>/\b0+(\d+)\b/\<close> at one position: the result is the text of group 1 and the state
  after the match. Group 1 is what the input lost between the states around \<open>\d+\<close>.
\<close>

definition zero_run_match :: "rx_state \<Rightarrow> (string \<times> rx_state) option" where
  "zero_run_match st =
     rx_boundary st (\<lambda>s1.
       rx_plus (\<lambda>c. c = CHR ''0'') s1 (\<lambda>s2.
         rx_plus is_digit s2 (\<lambda>s3.
           rx_boundary s3 (\<lambda>s4.
             Some (take (length (snd s2) - length (snd s3)) (snd s2), s4)))))"

subsection \<open>The global replacement of \<open>normalizeCity\<close>\<close>

text \<open>
  The replacement loop below resumes after each match, so its termination needs the
  fact that a match consumes input. That follows from a closed form of the match,
  \<open>zero_run_spec\<close>, which the proofs about \<open>normalizeCity\<close> use as well.
\<close>

lemma is_digit_word: "is_digit c \<Longrightarrow> is_word_char c"
  by (auto simp: is_digit_def is_word_char_def Let_def)

lemma is_space_not_word: "is_space c \<Longrightarrow> \<not> is_word_char c"
  by (auto simp: is_space_def is_word_char_def Let_def)

lemma zero_is_digit: "is_digit CHR ''0''"
  by (simp add: is_digit_def)

lemma toLowerCase_char_idem: "toLowerCase_char (toLowerCase_char c) = toLowerCase_char c"
  by (auto simp: toLowerCase_char_def Let_def)

definition word_before :: "char option \<Rightarrow> bool" where
  "word_before p = (case p of None \<Rightarrow> False | Some c \<Rightarrow> is_word_char c)"

definition nonword_next :: "string \<Rightarrow> bool" where
  "nonword_next r = (case r of [] \<Rightarrow> True | c # _ \<Rightarrow> \<not> is_word_char c)"

definition strip_zeros :: "string \<Rightarrow> string" where
  "strip_zeros w =
     (if dropWhile (\<lambda>c. c = CHR ''0'') w = [] then [last w]
      else dropWhile (\<lambda>c. c = CHR ''0'') w)"

definition zero_run_spec :: "rx_state \<Rightarrow> (string \<times> rx_state) option" where
  "zero_run_spec st =
     (case snd st of
        [] \<Rightarrow> None
      | c # cs \<Rightarrow>
          let w = takeWhile is_digit cs; r = dropWhile is_digit cs
          in if \<not> word_before (fst st) \<and> c = CHR ''0'' \<and> w \<noteq> [] \<and> nonword_next r
             then Some (strip_zeros w, (Some (last w), r)) else None)"

lemma take_length_dropWhile:
  "take (length xs - length (dropWhile P xs)) xs = takeWhile P xs"
proof -
  have "length xs - length (dropWhile P xs) = length (takeWhile P xs)"
    by (metis add_diff_cancel_right' length_append takeWhile_dropWhile_id)
  then show ?thesis
    by (metis takeWhile_eq_take)
qed

lemma digits_star:
  "is_word_char d \<Longrightarrow>
   rx_star is_digit (Some d) cs (\<lambda>s3. rx_boundary s3 (\<lambda>s4. Some (f s3, s4))) =
     (if nonword_next (dropWhile is_digit cs)
      then Some (f (Some (last (d # takeWhile is_digit cs)), dropWhile is_digit cs),
                 (Some (last (d # takeWhile is_digit cs)), dropWhile is_digit cs))
      else None)"
proof (induction cs arbitrary: d)
  case Nil
  then show ?case
    by (simp add: rx_boundary_def at_word_boundary_def nonword_next_def)
next
  case (Cons c cs)
  show ?case
  proof (cases "is_digit c")
    case True
    then have wc: "is_word_char c" by (rule is_digit_word)
    show ?thesis
      using True wc Cons.prems Cons.IH [OF wc]
      by (simp add: rx_boundary_def at_word_boundary_def)
  next
    case False
    then show ?thesis
      using Cons.prems
      by (simp add: rx_boundary_def at_word_boundary_def nonword_next_def)
  qed
qed

lemma digits_plus:
  "rx_plus is_digit (p2, r2)
     (\<lambda>s3. rx_boundary s3 (\<lambda>s4. Some (take (length r2 - length (snd s3)) r2, s4))) =
     (if takeWhile is_digit r2 \<noteq> [] \<and> nonword_next (dropWhile is_digit r2)
      then Some (takeWhile is_digit r2,
                 (Some (last (takeWhile is_digit r2)), dropWhile is_digit r2))
      else None)"
proof (cases r2)
  case Nil
  then show ?thesis by (simp add: rx_plus_def)
next
  case (Cons c cs)
  show ?thesis
  proof (cases "is_digit c")
    case True
    have "take (length r2 - length (dropWhile is_digit r2)) r2 = takeWhile is_digit r2"
      by (rule take_length_dropWhile)
    then show ?thesis
      using True Cons is_digit_word [OF True]
      by (simp add: rx_plus_def digits_star)
  next
    case False
    then show ?thesis using Cons by (simp add: rx_plus_def)
  qed
qed

definition digits_k :: "rx_state \<Rightarrow> (string \<times> rx_state) option" where
  "digits_k s2 =
     (if takeWhile is_digit (snd s2) \<noteq> [] \<and> nonword_next (dropWhile is_digit (snd s2))
      then Some (takeWhile is_digit (snd s2),
                 (Some (last (takeWhile is_digit (snd s2))), dropWhile is_digit (snd s2)))
      else None)"

lemma digits_k_eq:
  "(\<lambda>s2. rx_plus is_digit s2
      (\<lambda>s3. rx_boundary s3
         (\<lambda>s4. Some (take (length (snd s2) - length (snd s3)) (snd s2), s4)))) = digits_k"
proof (rule ext)
  fix s2 :: rx_state
  obtain p2 r2 where s2: "s2 = (p2, r2)" by (cases s2)
  show "rx_plus is_digit s2
      (\<lambda>s3. rx_boundary s3
         (\<lambda>s4. Some (take (length (snd s2) - length (snd s3)) (snd s2), s4))) = digits_k s2"
    unfolding s2 digits_k_def snd_conv by (rule digits_plus)
qed

lemma zeros_star:
  "rx_star (\<lambda>c. c = CHR ''0'') (Some CHR ''0'') cs digits_k =
     (if takeWhile is_digit cs \<noteq> [] \<and> nonword_next (dropWhile is_digit cs)
      then Some (strip_zeros (takeWhile is_digit cs),
                 (Some (last (takeWhile is_digit cs)), dropWhile is_digit cs))
      else None)"
proof (induction cs)
  case Nil
  then show ?case by (simp add: digits_k_def)
next
  case (Cons c cs)
  show ?case
  proof (cases "c = CHR ''0''")
    case True
    then show ?thesis
      using Cons.IH zero_is_digit
      by (simp add: digits_k_def strip_zeros_def)
  next
    case False
    then show ?thesis
      by (auto simp: digits_k_def strip_zeros_def)
  qed
qed

lemma zero_run_match_digits_k:
  "zero_run_match st = rx_boundary st (\<lambda>s1. rx_plus (\<lambda>c. c = CHR ''0'') s1 digits_k)"
  by (simp only: zero_run_match_def digits_k_eq)

lemma zero_run_match_spec: "zero_run_match st = zero_run_spec st"
proof -
  obtain p s where st: "st = (p, s)" by (cases st)
  show ?thesis
  proof (cases s)
    case Nil
    then show ?thesis
      by (simp add: st zero_run_match_digits_k zero_run_spec_def rx_boundary_def rx_plus_def)
  next
    case (Cons c cs)
    show ?thesis
    proof (cases "c = CHR ''0''")
      case True
      have w: "is_word_char CHR ''0''" by (rule is_digit_word [OF zero_is_digit])
      show ?thesis
        using True Cons w
        by (simp add: st zero_run_match_digits_k zero_run_spec_def rx_boundary_def
            at_word_boundary_def rx_plus_def zeros_star word_before_def Let_def
            split: option.splits)
    next
      case False
      then show ?thesis
        using Cons
        by (simp add: st zero_run_match_digits_k zero_run_spec_def rx_boundary_def
            rx_plus_def)
    qed
  qed
qed

lemma zero_run_match_shorter:
  assumes "zero_run_match (p, s) = Some (g, (p', r))"
  shows "length r < length s"
proof (cases s)
  case Nil
  with assms show ?thesis by (simp add: zero_run_match_spec zero_run_spec_def)
next
  case (Cons c cs)
  with assms have "r = dropWhile is_digit cs"
    by (simp add: zero_run_match_spec zero_run_spec_def Let_def split: if_splits)
  then have "length r \<le> length cs"
    by (simp add: length_dropWhile_le)
  with Cons show ?thesis by simp
qed

text \<open>
  \<open>replace(/\b0+(\d+)\b/g, '$1')\<close>: scan from the left; at a match put group 1 and
  resume behind the match, otherwise keep the character and move on by one.
\<close>

function replace_zero_runs :: "char option \<Rightarrow> string \<Rightarrow> string" where
  "replace_zero_runs p [] = []"
| "replace_zero_runs p (c # cs) =
     (case zero_run_match (p, c # cs) of
        Some (g1, (p', rest)) \<Rightarrow> g1 @ replace_zero_runs p' rest
      | None \<Rightarrow> c # replace_zero_runs (Some c) cs)"
  by pat_completeness auto
termination
proof (relation "measure (\<lambda>(p, s). length s)")
  show "wf (measure (\<lambda>(p, s). length s))" by simp
next
  fix p :: "char option" and c :: char and cs :: string
    and x2 g1 y and p' :: "char option" and rest :: string
  assume "zero_run_match (p, c # cs) = Some x2" "(g1, y) = x2" "(p', rest) = y"
  then have "zero_run_match (p, c # cs) = Some (g1, (p', rest))" by simp
  from zero_run_match_shorter [OF this]
  show "((p', rest), (p, c # cs)) \<in> measure (\<lambda>(p, s). length s)" by simp
next
  fix p :: "char option" and c :: char and cs :: string
  show "((Some c, cs), (p, c # cs)) \<in> measure (\<lambda>(p, s). length s)" by simp
qed

definition normalizeCity :: "string \<Rightarrow> string" where
  "normalizeCity s = trim (replace_zero_runs None (toLowerCase s))"


lemma replace_zero_runs_Cons:
  "replace_zero_runs p (c # cs) =
     (if \<not> word_before p \<and> c = CHR ''0'' \<and> takeWhile is_digit cs \<noteq> []
         \<and> nonword_next (dropWhile is_digit cs)
      then strip_zeros (takeWhile is_digit cs)
           @ replace_zero_runs (Some (last (takeWhile is_digit cs))) (dropWhile is_digit cs)
      else c # replace_zero_runs (Some c) cs)"
  by (simp add: zero_run_match_spec zero_run_spec_def Let_def)


subsection \<open>The conversion of a string to a number\<close>

text \<open>
  \<open>Number\<close> applied to a string reads it by the grammar of numeric string literals:
  white space around it is dropped; the empty string is 0; a literal is a binary, octal or
  hexadecimal integer with its prefix, or a decimal with an optional sign, fraction and
  exponent, or a signed \<open>Infinity\<close>; any other text is NaN. The value here is the
  mathematical value of the literal; the platform rounds it to the nearest binary64
  number. The validation of the page is therefore stated for every conversion, and this
  one is the conversion at concrete inputs, all of them small integers, which binary64
  holds exactly.
\<close>

definition digit_val :: "char \<Rightarrow> nat" where
  "digit_val c =
     (let n = (of_char c :: nat)
      in if 48 \<le> n \<and> n \<le> 57 then n - 48
         else if 97 \<le> n \<and> n \<le> 102 then n - 87
         else if 65 \<le> n \<and> n \<le> 70 then n - 55
         else 36)"

fun digits_val :: "nat \<Rightarrow> nat \<Rightarrow> string \<Rightarrow> nat" where
  "digits_val b acc [] = acc"
| "digits_val b acc (c # cs) = digits_val b (acc * b + digit_val c) cs"

definition all_digits :: "nat \<Rightarrow> string \<Rightarrow> bool" where
  "all_digits b s = (0 < length s \<and> list_all (\<lambda>c. digit_val c < b) s)"

definition radix_literal :: "nat \<Rightarrow> string \<Rightarrow> jsnum" where
  "radix_literal b s = (if all_digits b s then Fin (of_nat (digits_val b 0 s)) else NaN)"

text \<open>The exponent part after its letter: an optional sign and decimal digits.\<close>

definition exponent_part :: "string \<Rightarrow> int option" where
  "exponent_part s =
     (case s of
        c # t \<Rightarrow>
          if c = CHR ''-'' then
            (if all_digits 10 t then Some (- int (digits_val 10 0 t)) else None)
          else if c = CHR ''+'' then
            (if all_digits 10 t then Some (int (digits_val 10 0 t)) else None)
          else (if all_digits 10 s then Some (int (digits_val 10 0 s)) else None)
      | [] \<Rightarrow> None)"

definition scale10 :: "real \<Rightarrow> int \<Rightarrow> real" where
  "scale10 m e = (if 0 \<le> e then m * 10 ^ nat e else m / 10 ^ nat (- e))"

text \<open>
  An unsigned decimal: digits, an optional point with digits, an optional exponent; at
  least one digit before or after the point.
\<close>

definition unsigned_decimal :: "string \<Rightarrow> real option" where
  "unsigned_decimal s =
     (let ip = takeWhile is_digit s;
          r1 = dropWhile is_digit s;
          fp = (case r1 of c # t \<Rightarrow> if c = CHR ''.'' then takeWhile is_digit t else [] | [] \<Rightarrow> []);
          r2 = (case r1 of c # t \<Rightarrow> if c = CHR ''.'' then dropWhile is_digit t else r1 | [] \<Rightarrow> []);
          ex = (case r2 of
                  [] \<Rightarrow> Some 0
                | c # t \<Rightarrow> if c = CHR ''e'' \<or> c = CHR ''E'' then exponent_part t else None)
      in if ip = [] \<and> fp = [] then None
         else (case ex of
                 None \<Rightarrow> None
               | Some e \<Rightarrow>
                   Some (scale10 (of_nat (digits_val 10 0 (ip @ fp))) (e - int (length fp)))))"

definition signed_decimal :: "string \<Rightarrow> jsnum" where
  "signed_decimal s =
     (case s of
        c # t \<Rightarrow>
          if c = CHR ''-'' then
            (if t = ''Infinity'' then NegInf
             else (case unsigned_decimal t of None \<Rightarrow> NaN | Some x \<Rightarrow> Fin (- x)))
          else if c = CHR ''+'' then
            (if t = ''Infinity'' then PosInf
             else (case unsigned_decimal t of None \<Rightarrow> NaN | Some x \<Rightarrow> Fin x))
          else
            (if s = ''Infinity'' then PosInf
             else (case unsigned_decimal s of None \<Rightarrow> NaN | Some x \<Rightarrow> Fin x))
      | [] \<Rightarrow> NaN)"

definition StringToNumber :: "string \<Rightarrow> jsnum" where
  "StringToNumber s =
     (let t = trim s
      in case t of
           [] \<Rightarrow> Fin 0
         | c # u \<Rightarrow>
             (case u of
                d # v \<Rightarrow>
                  if c = CHR ''0'' \<and> (d = CHR ''x'' \<or> d = CHR ''X'') then radix_literal 16 v
                  else if c = CHR ''0'' \<and> (d = CHR ''o'' \<or> d = CHR ''O'') then radix_literal 8 v
                  else if c = CHR ''0'' \<and> (d = CHR ''b'' \<or> d = CHR ''B'') then radix_literal 2 v
                  else signed_decimal t
              | [] \<Rightarrow> signed_decimal t))"

section \<open>The option loader\<close>

text \<open>
  \<open>a || b\<close> where \<open>a\<close> may be \<open>undefined\<close>, as the result of \<open>find\<close> and of
  \<open>xs[0]\<close> is: \<open>undefined\<close> and the empty string are both falsy.
\<close>

definition first :: "string list \<Rightarrow> string option" where
  "first xs = (case xs of [] \<Rightarrow> None | x # _ \<Rightarrow> Some x)"

definition js_or :: "string option \<Rightarrow> string option \<Rightarrow> string option" where
  "js_or a b = (case a of None \<Rightarrow> b | Some x \<Rightarrow> if x = [] then b else Some x)"

definition js_or_str :: "string option \<Rightarrow> string \<Rightarrow> string" where
  "js_or_str a b = (case a of None \<Rightarrow> b | Some x \<Rightarrow> or_else x b)"

definition defaultLocation :: "FormOptions \<Rightarrow> string" where
  "defaultLocation data =
     js_or_str (js_or (find (rx_test re_colombo3 None) (locations data))
                      (first (locations data))) ''''"

definition defaultType :: "FormOptions \<Rightarrow> string" where
  "defaultType data =
     js_or_str (js_or (find (rx_test re_office None) (property_types data))
                      (first (property_types data))) ''''"

definition defaultStatus :: "FormOptions \<Rightarrow> string" where
  "defaultStatus data =
     js_or_str (js_or (find (rx_test re_rent None) (statuses data))
                      (first (statuses data))) ''''"

text \<open>The catalog and the defaults of the \<open>catch\<close> branch.\<close>

definition fallback_options :: FormOptions where
  "fallback_options =
     \<lparr>locations = [''Colombo 01'', ''Colombo 03'', ''Colombo 07'', ''Dehiwala'', ''Galle'',
                    ''Kandy'', ''Mount Lavinia'', ''Negombo'', ''Nugegoda''],
      property_types = [''Building'', ''Commercial Property'', ''Office Space'', ''Shop'',
                         ''Warehouse''],
      statuses = [''Rent'', ''Sale'']\<rparr>"

definition apply_defaults :: "string \<Rightarrow> string \<Rightarrow> string \<Rightarrow> FormData \<Rightarrow> FormData" where
  "apply_defaults dl dt ds prev =
     prev\<lparr>Location := or_else (Location prev) dl,
          PropertyType := or_else (PropertyType prev) dt,
          Status := or_else (Status prev) ds\<rparr>"

text \<open>
  \<open>fetchOptions\<close> from the point where its request settles. A response that is not
  \<open>ok\<close> passes the \<open>if\<close> without an \<open>else\<close>; a rejection of \<open>fetch\<close> or of
  \<open>res.json()\<close> reaches the \<open>catch\<close>; the \<open>finally\<close> runs in every case.
\<close>

definition fetchOptions :: "FormOptions fetch_outcome \<Rightarrow> page_state \<Rightarrow> page_state" where
  "fetchOptions outcome st =
     (let fallback = (\<lambda>s. s\<lparr>formOptions := fallback_options,
                             formData := apply_defaults ''Colombo 03'' ''Office Space'' ''Rent''
                                           (formData s)\<rparr>);
          st1 =
            (case outcome of
               Ok_json data \<Rightarrow>
                 st\<lparr>formOptions := data,
                    formData := apply_defaults (defaultLocation data) (defaultType data)
                                  (defaultStatus data) (formData st)\<rparr>
             | Not_ok \<Rightarrow> st
             | Rejected msg \<Rightarrow> fallback st
             | Json_rejected msg \<Rightarrow> fallback st)
      in st1\<lparr>formOptionsLoading := False\<rparr>)"

section \<open>The market sync engine\<close>

record market_request =
  q_status :: string
  q_location :: string
  q_sqft :: string
  q_property_type :: string

text \<open>
  The effect calls \<open>fetchMarketData\<close> whenever one of the four form fields has
  changed. Its first part runs up to the \<open>await fetch\<close> and issues the request; the
  second part runs when that request settles. The second part has no reference to the
  request it belongs to: it only receives the outcome.
\<close>

definition fetchMarketData_begin :: "page_state \<Rightarrow> page_state \<times> market_request" where
  "fetchMarketData_begin st =
     (st\<lparr>marketLoading := True, marketError := None\<rparr>,
      \<lparr>q_status = Status (formData st),
       q_location = Location (formData st),
       q_sqft = or_else (Sqft (formData st)) ''0'',
       q_property_type = PropertyType (formData st)\<rparr>)"

definition fetchMarketData_settle ::
  "MarketInsights fetch_outcome \<Rightarrow> page_state \<Rightarrow> page_state" where
  "fetchMarketData_settle outcome st =
     (let unreachable =
            ''Could not connect to the backend. Make sure it is running on port 8000.'';
          st1 =
            (case outcome of
               Ok_json data \<Rightarrow>
                 if 0 < length (market_locations data) then st\<lparr>marketData := Some data\<rparr>
                 else st\<lparr>marketData := None,
                         marketError := Some ''No market data found for this category.''\<rparr>
             | Not_ok \<Rightarrow>
                 st\<lparr>marketError :=
                      Some ''Backend returned an error. Make sure the backend server is running.''\<rparr>
             | Rejected msg \<Rightarrow> st\<lparr>marketError := Some unreachable\<rparr>
             | Json_rejected msg \<Rightarrow> st\<lparr>marketError := Some unreachable\<rparr>)
      in st1\<lparr>marketLoading := False\<rparr>)"

section \<open>Editing a field\<close>

datatype field = Sqft_field | Location_field | PropertyType_field | Status_field

definition handleChange :: "field \<Rightarrow> string \<Rightarrow> page_state \<Rightarrow> page_state" where
  "handleChange name v st =
     (let fd = formData st;
          st1 = st\<lparr>formData :=
                     (case name of
                        Sqft_field \<Rightarrow> fd\<lparr>Sqft := v\<rparr>
                      | Location_field \<Rightarrow> fd\<lparr>Location := v\<rparr>
                      | PropertyType_field \<Rightarrow> fd\<lparr>PropertyType := v\<rparr>
                      | Status_field \<Rightarrow> fd\<lparr>Status := v\<rparr>)\<rparr>
      in if name = Sqft_field then st1\<lparr>sqftError := None\<rparr> else st1)"

section \<open>The prediction submitter\<close>

record predict_request =
  req_Sqft :: jsnum
  req_Location :: string
  req_PropertyType :: string
  req_Status :: string

text \<open>
  \<open>handleSubmit\<close> runs in two parts. The first runs synchronously up to the
  \<open>await fetch\<close>: it returns the state and the request it issues, or no request when it
  returns early. The conversion \<open>Number\<close> of the platform is a parameter.
\<close>

definition handleSubmit_begin ::
  "(string \<Rightarrow> jsnum) \<Rightarrow> page_state \<Rightarrow> page_state \<times> predict_request option" where
  "handleSubmit_begin Number st =
     (let st1 = st\<lparr>sqftError := None\<rparr>;
          st2 = st1\<lparr>error := None\<rparr>
      in if Sqft (formData st) = [] then
           (st2\<lparr>sqftError := Some ''Please enter the square footage.''\<rparr>, None)
         else
           let sqftNum = Number (Sqft (formData st))
           in if isNaN sqftNum \<or> js_less sqftNum (Fin 50) then
                (st2\<lparr>sqftError := Some ''Square footage must be at least 50 sqft.''\<rparr>, None)
              else if js_less (Fin 1000000) sqftNum then
                (st2\<lparr>sqftError := Some ''Value is too large. Please enter a valid size.''\<rparr>,
                 None)
              else
                (st2\<lparr>loading := True, result := None, shapImgError := False\<rparr>,
                 Some \<lparr>req_Sqft = sqftNum,
                       req_Location = Location (formData st),
                       req_PropertyType = PropertyType (formData st),
                       req_Status = Status (formData st)\<rparr>))"

text \<open>
  The second part runs when the request settles: the \<open>try\<close> body after the
  \<open>await\<close>, the \<open>catch\<close> and the \<open>finally\<close>.
\<close>

definition handleSubmit_settle ::
  "PredictionResponse fetch_outcome \<Rightarrow> page_state \<Rightarrow> page_state" where
  "handleSubmit_settle outcome st =
     (let st1 =
        (case outcome of
           Ok_json data \<Rightarrow> st\<lparr>result := Some data\<rparr>
         | Not_ok \<Rightarrow>
             st\<lparr>error := Some (or_else ''Failed to get prediction from the backend.''
                                   ''An unexpected error occurred.'')\<rparr>
         | Rejected msg \<Rightarrow> st\<lparr>error := Some (or_else msg ''An unexpected error occurred.'')\<rparr>
         | Json_rejected msg \<Rightarrow>
             st\<lparr>error := Some (or_else msg ''An unexpected error occurred.'')\<rparr>)
      in st1\<lparr>loading := False\<rparr>)"

text \<open>
  A whole submission: with no request issued the outcome is not consulted.
\<close>

definition handleSubmit ::
  "(string \<Rightarrow> jsnum) \<Rightarrow> PredictionResponse fetch_outcome \<Rightarrow> page_state \<Rightarrow> page_state" where
  "handleSubmit Number outcome st =
     (case handleSubmit_begin Number st of
        (st', None) \<Rightarrow> st'
      | (st', Some req) \<Rightarrow> handleSubmit_settle outcome st')"


section \<open>Concrete inputs\<close>

text \<open>A prediction, two market snapshots and an empty catalog, for the concrete runs.\<close>

definition sample_prediction :: PredictionResponse where
  "sample_prediction =
     \<lparr>predicted_price = 350000,
      shap_image_base64 = ''iVBORw0KGgo='',
      top_features = [\<lparr>feature = ''Sqft'', impact = 42000\<rparr>,
                      \<lparr>feature = ''Location_Colombo 03'', impact = - 8000\<rparr>],
      base_value = 316000\<rparr>"

definition colombo_market :: MarketInsights where
  "colombo_market =
     \<lparr>status = ''Rent'', selected_city = ''Colombo 03'',
      market_locations = [''Colombo 03'', ''Colombo 07''],
      median_prices = [250000, 310000],
      counts = [12, 9]\<rparr>"

definition kandy_market :: MarketInsights where
  "kandy_market =
     \<lparr>status = ''Rent'', selected_city = ''Kandy'',
      market_locations = [''Kandy'', ''Galle''],
      median_prices = [90000, 70000],
      counts = [14, 3]\<rparr>"

definition no_market :: MarketInsights where
  "no_market =
     \<lparr>status = ''Sale'', selected_city = ''Galle'',
      market_locations = [], median_prices = [], counts = []\<rparr>"

definition empty_options :: FormOptions where
  "empty_options = \<lparr>locations = [], property_types = [], statuses = []\<rparr>"

text \<open>
  A page on which an earlier submission has succeeded, a later one has failed at the
  backend, and the image of the result could not be drawn.
\<close>

definition used_state :: page_state where
  "used_state =
     initial_state
       \<lparr>formData := \<lparr>Sqft = ''1200'', Location = ''Kandy'', PropertyType = '''',
                      Status = ''Sale''\<rparr>,
        formOptionsLoading := False,
        result := Some sample_prediction,
        error := Some ''Failed to get prediction from the backend.'',
        marketData := Some colombo_market,
        shapImgError := True\<rparr>"

text \<open>
  Two overlapping market requests: the first is issued for Colombo 03, the user moves
  the location to Kandy, the second is issued, the second settles with the Kandy
  snapshot and only then the first settles with the Colombo snapshot.
\<close>

definition second_issued :: page_state where
  "second_issued =
     handleChange Location_field ''Kandy''
       (fst (fetchMarketData_begin (handleChange Location_field ''Colombo 03'' initial_state)))"

definition stale_run :: page_state where
  "stale_run =
     fetchMarketData_settle (Ok_json colombo_market)
       (fetchMarketData_settle (Ok_json kandy_market)
          (fst (fetchMarketData_begin second_issued)))"

text \<open>A request that succeeds, followed by one that the backend answers with an error.\<close>

definition failed_refresh :: page_state where
  "failed_refresh =
     fetchMarketData_settle Not_ok
       (fst (fetchMarketData_begin
          (fetchMarketData_settle (Ok_json colombo_market)
             (fst (fetchMarketData_begin initial_state)))))"

definition unreachable_refresh :: page_state where
  "unreachable_refresh =
     fetchMarketData_settle (Rejected ''Failed to fetch'')
       (fst (fetchMarketData_begin
          (fetchMarketData_settle (Ok_json colombo_market)
             (fst (fetchMarketData_begin initial_state)))))"


section \<open>Properties of the city normalizer\<close>

text \<open>
  From here on the replacement is unfolded through the closed form of its match.
\<close>

declare replace_zero_runs.simps(2) [simp del]

lemma strip_zeros_nonempty: "w \<noteq> [] \<Longrightarrow> strip_zeros w \<noteq> []"
  by (simp add: strip_zeros_def)

lemma strip_zeros_last: "w \<noteq> [] \<Longrightarrow> last (strip_zeros w) = last w"
proof -
  assume "w \<noteq> []"
  show ?thesis
  proof (cases "dropWhile (\<lambda>c. c = CHR ''0'') w = []")
    case True
    then show ?thesis by (simp add: strip_zeros_def)
  next
    case False
    have "w = takeWhile (\<lambda>c. c = CHR ''0'') w @ dropWhile (\<lambda>c. c = CHR ''0'') w"
      by simp
    then have "last w = last (dropWhile (\<lambda>c. c = CHR ''0'') w)"
      using False by (metis last_appendR)
    with False show ?thesis by (simp add: strip_zeros_def)
  qed
qed

lemma strip_zeros_set: "w \<noteq> [] \<Longrightarrow> set (strip_zeros w) \<subseteq> set w"
  by (auto simp: strip_zeros_def dest: set_dropWhileD)

lemma strip_zeros_shape:
  "w \<noteq> [] \<Longrightarrow> strip_zeros w = ''0'' \<or> hd (strip_zeros w) \<noteq> CHR ''0''"
proof (cases "dropWhile (\<lambda>c. c = CHR ''0'') w = []")
  case True
  assume "w \<noteq> []"
  then have "last w \<in> set w" by simp
  moreover from True have "\<forall>c\<in>set w. c = CHR ''0''" by simp
  ultimately have "last w = CHR ''0''" by blast
  with True show ?thesis by (simp add: strip_zeros_def)
next
  case False
  then show ?thesis
    using hd_dropWhile [OF False] by (simp add: strip_zeros_def)
qed

lemma replace_prev_irrelevant:
  "word_before p = word_before q \<Longrightarrow> replace_zero_runs p s = replace_zero_runs q s"
  by (cases s) (simp_all add: replace_zero_runs_Cons)

lemma replace_after_word:
  "word_before p \<Longrightarrow> replace_zero_runs p (c # cs) = c # replace_zero_runs (Some c) cs"
  by (simp add: replace_zero_runs_Cons)

lemma replace_nonword_head:
  "\<not> is_word_char c \<Longrightarrow> replace_zero_runs p (c # cs) = c # replace_zero_runs (Some c) cs"
  using is_digit_word [OF zero_is_digit] by (auto simp: replace_zero_runs_Cons)

lemma replace_nonword_next_prev:
  "nonword_next r \<Longrightarrow> replace_zero_runs p r = replace_zero_runs q r"
  by (cases r) (simp_all add: nonword_next_def replace_nonword_head)

lemma replace_nonword_next:
  "nonword_next r \<Longrightarrow> nonword_next (replace_zero_runs p r)"
  by (cases r) (simp_all add: nonword_next_def replace_nonword_head)

lemma replace_word_prefix:
  "word_before p \<Longrightarrow> \<forall>c\<in>set v. is_word_char c \<Longrightarrow>
   replace_zero_runs p (v @ s) = v @ replace_zero_runs (if v = [] then p else Some (last v)) s"
proof (induction v arbitrary: p)
  case Nil
  then show ?case by simp
next
  case (Cons a v)
  have "word_before (Some a)" using Cons.prems by (simp add: word_before_def)
  from Cons.IH [OF this] Cons.prems show ?case
    by (simp add: replace_after_word)
qed

lemma takeWhile_append_stop: "\<not> P c \<Longrightarrow> takeWhile P (xs @ c # u) = takeWhile P xs"
  by (induction xs) simp_all

lemma dropWhile_append_stop:
  "\<not> P c \<Longrightarrow> dropWhile P (xs @ c # u) = dropWhile P xs @ c # u"
  by (induction xs) simp_all

lemma nonword_next_append:
  "\<not> is_word_char c \<Longrightarrow> nonword_next (r @ c # u) = nonword_next r"
  by (cases r) (simp_all add: nonword_next_def)

lemma replace_append_nonword:
  "\<not> is_word_char c \<Longrightarrow>
   replace_zero_runs p (t @ c # u) = replace_zero_runs p t @ c # replace_zero_runs (Some c) u"
proof (induction "length t" arbitrary: t p rule: less_induct)
  case less
  have nd: "\<not> is_digit c" using less.prems is_digit_word by blast
  show ?case
  proof (cases t)
    case Nil
    then show ?thesis using less.prems by (simp add: replace_nonword_head)
  next
    case (Cons a t')
    have short: "length (dropWhile is_digit t') < length t"
      using Cons length_dropWhile_le [of is_digit t'] by simp
    have short': "length t' < length t" using Cons by simp
    show ?thesis
      using less.hyps [OF short less.prems] less.hyps [OF short' less.prems] Cons nd less.prems
      by (simp add: replace_zero_runs_Cons takeWhile_append_stop dropWhile_append_stop
          nonword_next_append)
  qed
qed

lemma replace_digit_run:
  "word_before p \<Longrightarrow>
   takeWhile is_digit (replace_zero_runs p s) = takeWhile is_digit s \<and>
   nonword_next (dropWhile is_digit (replace_zero_runs p s)) = nonword_next (dropWhile is_digit s)"
proof (induction s arbitrary: p)
  case Nil
  then show ?case by simp
next
  case (Cons x s)
  show ?case
  proof (cases "is_digit x")
    case True
    then have "word_before (Some x)" by (simp add: word_before_def is_digit_word)
    from Cons.IH [OF this] True Cons.prems show ?thesis
      by (simp add: replace_after_word)
  next
    case False
    then show ?thesis using Cons.prems
      by (simp add: replace_after_word nonword_next_def)
  qed
qed

lemma nonword_next_no_digits: "nonword_next Y \<Longrightarrow> takeWhile is_digit Y = []"
  by (cases Y) (auto simp: nonword_next_def dest: is_digit_word)

lemma replace_idem:
  "replace_zero_runs p (replace_zero_runs p s) = replace_zero_runs p s"
proof (induction "length s" arbitrary: s p rule: less_induct)
  case less
  show ?case
  proof (cases s)
    case Nil
    then show ?thesis by simp
  next
    case (Cons c cs)
    define w where "w = takeWhile is_digit cs"
    define r where "r = dropWhile is_digit cs"
    have short_r: "length r < length s"
      using Cons length_dropWhile_le [of is_digit cs] by (simp add: r_def)
    have short_cs: "length cs < length s" using Cons by simp
    show ?thesis
    proof (cases "\<not> word_before p \<and> c = CHR ''0'' \<and> w \<noteq> [] \<and> nonword_next r")
      case True
      define q where "q = Some (last w)"
      define Y where "Y = replace_zero_runs q r"
      define v where "v = strip_zeros w"
      have Rs: "replace_zero_runs p s = v @ Y"
        using True Cons by (simp add: replace_zero_runs_Cons w_def r_def v_def Y_def q_def)
      have vne: "v \<noteq> []" using True by (simp add: v_def strip_zeros_nonempty)
      have vlast: "last v = last w" using True by (simp add: v_def strip_zeros_last)
      have "set v \<subseteq> set w" using True by (simp add: v_def strip_zeros_set)
      then have vdig: "\<forall>x\<in>set v. is_digit x"
        by (auto simp: w_def dest: set_takeWhileD)
      have nwY: "nonword_next Y" using True by (simp add: Y_def replace_nonword_next)
      have idY: "replace_zero_runs q Y = Y"
        unfolding Y_def by (rule less.hyps [OF short_r])
      obtain a v' where v: "v = a # v'" using vne by (cases v) auto
      have shape: "v = ''0'' \<or> a \<noteq> CHR ''0''"
        using strip_zeros_shape [of w] True v by (auto simp: v_def)
      have step1: "replace_zero_runs p (a # v' @ Y) = a # replace_zero_runs (Some a) (v' @ Y)"
        using shape v nwY by (auto simp: replace_zero_runs_Cons nonword_next_no_digits)
      have wa: "word_before (Some a)" using vdig v by (simp add: word_before_def is_digit_word)
      have wv': "\<forall>x\<in>set v'. is_word_char x" using vdig v by (simp add: is_digit_word)
      have prev: "(if v' = [] then Some a else Some (last v')) = q"
        using vlast v by (auto simp: q_def)
      have step2: "replace_zero_runs (Some a) (v' @ Y) = v' @ replace_zero_runs q Y"
        using replace_word_prefix [OF wa wv', of Y] prev by simp
      show ?thesis
        using step1 step2 idY by (simp add: Rs v)
    next
      case False
      define X where "X = replace_zero_runs (Some c) cs"
      have Rs: "replace_zero_runs p s = c # X"
        using False Cons by (auto simp: replace_zero_runs_Cons w_def r_def X_def)
      have idX: "replace_zero_runs (Some c) X = X"
        unfolding X_def by (rule less.hyps [OF short_cs])
      have "replace_zero_runs p (c # X) = c # replace_zero_runs (Some c) X"
      proof (cases "\<not> word_before p \<and> c = CHR ''0''")
        case True
        then have "word_before (Some c)"
          using is_digit_word [OF zero_is_digit] by (simp add: word_before_def)
        from replace_digit_run [OF this, of cs]
        have "takeWhile is_digit X = w"
          and "nonword_next (dropWhile is_digit X) = nonword_next r"
          by (simp_all add: X_def w_def r_def)
        with False True show ?thesis
          by (auto simp: replace_zero_runs_Cons)
      next
        case False
        then show ?thesis by (auto simp: replace_zero_runs_Cons)
      qed
      with idX show ?thesis by (simp add: Rs)
    qed
  qed
qed

lemma replace_set: "set (replace_zero_runs p s) \<subseteq> set s"
proof (induction "length s" arbitrary: s p rule: less_induct)
  case less
  show ?case
  proof (cases s)
    case Nil
    then show ?thesis by simp
  next
    case (Cons c cs)
    have short_r: "length (dropWhile is_digit cs) < length s"
      using Cons length_dropWhile_le [of is_digit cs] by simp
    have short_cs: "length cs < length s" using Cons by simp
    have a: "set (strip_zeros (takeWhile is_digit cs)) \<subseteq> set cs"
      if "takeWhile is_digit cs \<noteq> []"
      using strip_zeros_set [OF that] set_takeWhileD by fastforce
    have b: "set (dropWhile is_digit cs) \<subseteq> set cs"
      by (auto dest: set_dropWhileD)
    show ?thesis
      using less.hyps [OF short_r, of "Some (last (takeWhile is_digit cs))"]
        less.hyps [OF short_cs, of "Some c"] a b Cons
      by (auto simp: replace_zero_runs_Cons)
  qed
qed

lemma replace_last:
  "s \<noteq> [] \<Longrightarrow> replace_zero_runs p s \<noteq> [] \<and> last (replace_zero_runs p s) = last s"
proof (induction "length s" arbitrary: s p rule: less_induct)
  case less
  then obtain c cs where s: "s = c # cs" by (cases s) auto
  define w where "w = takeWhile is_digit cs"
  define r where "r = dropWhile is_digit cs"
  have cs: "cs = w @ r" by (simp add: w_def r_def)
  have short_r: "length r < length s"
    using s length_dropWhile_le [of is_digit cs] by (simp add: r_def)
  have short_cs: "length cs < length s" using s by simp
  show ?case
  proof (cases "\<not> word_before p \<and> c = CHR ''0'' \<and> w \<noteq> [] \<and> nonword_next r")
    case True
    then have Rs: "replace_zero_runs p s = strip_zeros w @ replace_zero_runs (Some (last w)) r"
      using s by (simp add: replace_zero_runs_Cons w_def r_def)
    show ?thesis
    proof (cases "r = []")
      case True
      have wne: "w \<noteq> []"
        using \<open>\<not> word_before p \<and> c = CHR ''0'' \<and> w \<noteq> [] \<and> nonword_next r\<close> by simp
      have "last s = last w" using True wne by (simp add: s cs)
      then show ?thesis
        unfolding Rs using True wne by (simp add: strip_zeros_nonempty strip_zeros_last)
    next
      case False
      have "last s = last r" using False by (simp add: s cs)
      with less.hyps [OF short_r False, of "Some (last w)"] show ?thesis
        unfolding Rs by simp
    qed
  next
    case False
    then have Rs: "replace_zero_runs p s = c # replace_zero_runs (Some c) cs"
      using s by (auto simp: replace_zero_runs_Cons w_def r_def)
    show ?thesis
    proof (cases "cs = []")
      case True
      then show ?thesis unfolding Rs by (simp add: s)
    next
      case False
      have "last s = last cs" using False by (simp add: s)
      with less.hyps [OF short_cs False, of "Some c"] show ?thesis
        unfolding Rs by simp
    qed
  qed
qed

lemma is_digit_not_space: "is_digit c \<Longrightarrow> \<not> is_space c"
  using is_digit_word is_space_not_word by blast

lemma replace_head_nonspace:
  assumes "\<not> is_space c"
  shows "trimStart (replace_zero_runs p (c # t)) = replace_zero_runs p (c # t)"
proof (cases "\<not> word_before p \<and> c = CHR ''0'' \<and> takeWhile is_digit t \<noteq> []
               \<and> nonword_next (dropWhile is_digit t)")
  case True
  define v where "v = strip_zeros (takeWhile is_digit t)"
  have vne: "v \<noteq> []" using True by (simp add: v_def strip_zeros_nonempty)
  have "set v \<subseteq> set (takeWhile is_digit t)" using True by (simp add: v_def strip_zeros_set)
  then have "\<forall>x\<in>set v. is_digit x" by (auto dest: set_takeWhileD)
  then have "\<not> is_space (hd v)" using vne is_digit_not_space by (cases v) auto
  then have "dropWhile is_space (v @ ys) = v @ ys" for ys
    using vne by (cases v) auto
  with True show ?thesis
    by (simp add: replace_zero_runs_Cons trimStart_def v_def)
next
  case False
  then show ?thesis using assms
    by (auto simp: replace_zero_runs_Cons trimStart_def)
qed

lemma replace_trimStart:
  "\<not> word_before p \<Longrightarrow>
   replace_zero_runs p (trimStart x) = trimStart (replace_zero_runs p x)"
proof (induction x arbitrary: p)
  case Nil
  then show ?case by (simp add: trimStart_def)
next
  case (Cons c t)
  show ?case
  proof (cases "is_space c")
    case True
    then have nw: "\<not> is_word_char c" by (rule is_space_not_word)
    have "replace_zero_runs (Some c) (trimStart t) = replace_zero_runs p (trimStart t)"
      using nw Cons.prems by (intro replace_prev_irrelevant) (simp add: word_before_def)
    moreover have "replace_zero_runs (Some c) (trimStart t)
        = trimStart (replace_zero_runs (Some c) t)"
      using nw by (intro Cons.IH) (simp add: word_before_def)
    ultimately show ?thesis
      using True nw by (simp add: replace_nonword_head trimStart_def)
  next
    case False
    then have "trimStart (c # t) = c # t" by (simp add: trimStart_def)
    with replace_head_nonspace [OF False] show ?thesis by simp
  qed
qed

lemma trimEnd_Cons:
  "trimEnd (c # t) = (if is_space c \<and> trimEnd t = [] then [] else c # trimEnd t)"
proof (cases "\<forall>x\<in>set t. is_space x")
  case True
  then have "dropWhile is_space (rev t @ [c]) = dropWhile is_space [c]"
    by (intro dropWhile_append2) simp
  moreover have "trimEnd t = []" using True by (simp add: trimEnd_def)
  ultimately show ?thesis by (simp add: trimEnd_def)
next
  case False
  then obtain x where "x \<in> set (rev t)" "\<not> is_space x" by auto
  then have "dropWhile is_space (rev t @ [c]) = dropWhile is_space (rev t) @ [c]"
    by (intro dropWhile_append1)
  moreover have "trimEnd t \<noteq> []" using False by (simp add: trimEnd_def)
  ultimately show ?thesis by (simp add: trimEnd_def)
qed

lemma trimStart_trimEnd: "trimStart (trimEnd y) = trimEnd (trimStart y)"
proof (induction y)
  case Nil
  then show ?case by (simp add: trimStart_def trimEnd_def)
next
  case (Cons c t)
  then show ?case
    by (cases "is_space c") (auto simp: trimEnd_Cons trimStart_def)
qed

lemma trimEnd_idem: "trimEnd (trimEnd y) = trimEnd y"
  by (simp add: trimEnd_def)

lemma trimStart_idem: "trimStart (trimStart y) = trimStart y"
  by (simp add: trimStart_def)

lemma trim_idem: "trim (trim x) = trim x"
  by (simp add: trim_def trimStart_trimEnd trimEnd_idem trimStart_idem)

lemma trimEnd_decomp: "\<exists>ws. x = trimEnd x @ ws \<and> (\<forall>c\<in>set ws. is_space c)"
proof -
  have "rev x = takeWhile is_space (rev x) @ dropWhile is_space (rev x)" by simp
  then have "x = rev (dropWhile is_space (rev x)) @ rev (takeWhile is_space (rev x))"
    by (metis rev_append rev_rev_ident)
  moreover have "\<forall>c\<in>set (rev (takeWhile is_space (rev x))). is_space c"
    by (auto dest: set_takeWhileD)
  ultimately show ?thesis unfolding trimEnd_def by blast
qed

lemma trimEnd_append_spaces: "\<forall>c\<in>set ws. is_space c \<Longrightarrow> trimEnd (t @ ws) = trimEnd t"
proof -
  assume "\<forall>c\<in>set ws. is_space c"
  then have "dropWhile is_space (rev ws @ rev t) = dropWhile is_space (rev t)"
    by (intro dropWhile_append2) simp
  then show ?thesis by (simp add: trimEnd_def)
qed

lemma trimEnd_last: "trimEnd x \<noteq> [] \<Longrightarrow> \<not> is_space (last (trimEnd x))"
  by (simp add: trimEnd_def last_rev hd_dropWhile)

lemma trimEnd_fixed: "t = [] \<or> \<not> is_space (last t) \<Longrightarrow> trimEnd t = t"
proof (cases "t = []")
  case True
  then show ?thesis by (simp add: trimEnd_def)
next
  case False
  assume "t = [] \<or> \<not> is_space (last t)"
  with False have "\<not> is_space (hd (rev t))" by (simp add: hd_rev)
  moreover have "rev t \<noteq> []" using False by simp
  ultimately have "dropWhile is_space (rev t) = rev t" by (cases "rev t") auto
  then show ?thesis by (simp add: trimEnd_def)
qed

lemma replace_spaces: "\<forall>c\<in>set u. is_space c \<Longrightarrow> replace_zero_runs q u = u"
  by (induction u arbitrary: q) (simp_all add: replace_nonword_head is_space_not_word)

lemma replace_append_spaces:
  "\<forall>c\<in>set ws. is_space c \<Longrightarrow> replace_zero_runs p (t @ ws) = replace_zero_runs p t @ ws"
  by (cases ws) (simp_all add: replace_append_nonword is_space_not_word replace_spaces)

lemma replace_trimEnd: "replace_zero_runs p (trimEnd x) = trimEnd (replace_zero_runs p x)"
proof -
  obtain ws where x: "x = trimEnd x @ ws" and ws: "\<forall>c\<in>set ws. is_space c"
    using trimEnd_decomp by blast
  define t where "t = trimEnd x"
  have "replace_zero_runs p x = replace_zero_runs p t @ ws"
    using replace_append_spaces [OF ws, of p t] x by (simp add: t_def)
  then have "trimEnd (replace_zero_runs p x) = trimEnd (replace_zero_runs p t)"
    by (simp add: trimEnd_append_spaces [OF ws])
  also have "\<dots> = replace_zero_runs p t"
  proof (cases "t = []")
    case True
    then show ?thesis by (simp add: trimEnd_def)
  next
    case False
    then have "\<not> is_space (last t)" unfolding t_def by (rule trimEnd_last)
    with replace_last [OF False, of p] show ?thesis
      by (intro trimEnd_fixed) simp
  qed
  finally show ?thesis by (simp add: t_def)
qed

lemma replace_trim:
  "replace_zero_runs None (trim x) = trim (replace_zero_runs None x)"
  by (simp add: trim_def replace_trimEnd replace_trimStart word_before_def)

lemma trimStart_set: "set (trimStart x) \<subseteq> set x"
  by (auto simp: trimStart_def dest: set_dropWhileD)

lemma trimEnd_set: "set (trimEnd x) \<subseteq> set x"
  by (auto simp: trimEnd_def dest: set_dropWhileD)

lemma normalizeCity_lowered:
  "toLowerCase (normalizeCity s) = normalizeCity s"
proof -
  have "set (normalizeCity s) \<subseteq> set (toLowerCase s)"
    unfolding normalizeCity_def trim_def
    using trimEnd_set trimStart_set replace_set by (meson subset_trans)
  then have "\<forall>c\<in>set (normalizeCity s). toLowerCase_char c = c"
    by (auto simp: toLowerCase_def toLowerCase_char_idem)
  then show ?thesis
    unfolding toLowerCase_def by (simp add: map_idI)
qed

lemma normalizeCity_idem: "normalizeCity (normalizeCity s) = normalizeCity s"
proof -
  have "normalizeCity (normalizeCity s) = trim (replace_zero_runs None (normalizeCity s))"
    by (simp add: normalizeCity_def [of "normalizeCity s"] normalizeCity_lowered)
  also have "\<dots> = trim (trim (replace_zero_runs None (replace_zero_runs None (toLowerCase s))))"
    by (simp add: normalizeCity_def replace_trim)
  also have "\<dots> = normalizeCity s"
    by (simp add: trim_idem replace_idem normalizeCity_def)
  finally show ?thesis .
qed


lemma normalizeCity_samples:
  "normalizeCity ''Colombo 03'' = ''colombo 3''"
  "normalizeCity ''Colombo 3'' = ''colombo 3''"
  "normalizeCity ''Colombo 7'' = ''colombo 7''"
  by code_simp+

text \<open>
  C4. Normalizing a city label (lower case, leading zeros stripped from every run of
  digits that stands between word boundaries, white space trimmed at both ends) is
  idempotent on every string; \<open>Colombo 03\<close> and \<open>Colombo 3\<close> normalize to the same
  text, and \<open>Colombo 03\<close> and \<open>Colombo 7\<close> to different ones.
\<close>

theorem normalizeCity_idempotent_padding:
  "normalizeCity (normalizeCity s) = normalizeCity s
   \<and> normalizeCity ''Colombo 03'' = normalizeCity ''Colombo 3''
   \<and> normalizeCity ''Colombo 03'' \<noteq> normalizeCity ''Colombo 7''"
  by (simp add: normalizeCity_idem normalizeCity_samples)

section \<open>Properties of the prediction submitter\<close>

lemma in_range_iff:
  "(js_le (Fin 50) n \<and> js_le n (Fin 1000000)) =
     (\<not> isNaN n \<and> \<not> js_less n (Fin 50) \<and> \<not> js_less (Fin 1000000) n)"
  by (cases n) auto

lemma too_large_not_small:
  "js_less (Fin 1000000) n \<Longrightarrow> \<not> isNaN n \<and> \<not> js_less n (Fin 50)"
  by (cases n) auto

lemma handleSubmit_begin_missing:
  "Sqft (formData st) = [] \<Longrightarrow>
   handleSubmit_begin Number st =
     (st\<lparr>sqftError := Some ''Please enter the square footage.'', error := None\<rparr>, None)"
  by (simp add: handleSubmit_begin_def)

lemma handleSubmit_begin_small:
  "Sqft (formData st) \<noteq> [] \<Longrightarrow>
   isNaN (Number (Sqft (formData st))) \<or> js_less (Number (Sqft (formData st))) (Fin 50) \<Longrightarrow>
   handleSubmit_begin Number st =
     (st\<lparr>sqftError := Some ''Square footage must be at least 50 sqft.'', error := None\<rparr>, None)"
  by (simp add: handleSubmit_begin_def Let_def)

lemma handleSubmit_begin_large:
  "Sqft (formData st) \<noteq> [] \<Longrightarrow>
   js_less (Fin 1000000) (Number (Sqft (formData st))) \<Longrightarrow>
   handleSubmit_begin Number st =
     (st\<lparr>sqftError := Some ''Value is too large. Please enter a valid size.'', error := None\<rparr>,
      None)"
  using too_large_not_small [of "Number (Sqft (formData st))"]
  by (simp add: handleSubmit_begin_def Let_def)

lemma handleSubmit_begin_valid:
  "Sqft (formData st) \<noteq> [] \<Longrightarrow>
   js_le (Fin 50) (Number (Sqft (formData st))) \<Longrightarrow>
   js_le (Number (Sqft (formData st))) (Fin 1000000) \<Longrightarrow>
   handleSubmit_begin Number st =
     (st\<lparr>sqftError := None, error := None, loading := True, result := None,
         shapImgError := False\<rparr>,
      Some \<lparr>req_Sqft = Number (Sqft (formData st)),
            req_Location = Location (formData st),
            req_PropertyType = PropertyType (formData st),
            req_Status = Status (formData st)\<rparr>)"
  using in_range_iff [of "Number (Sqft (formData st))"]
  by (simp add: handleSubmit_begin_def Let_def)

lemmas number_defs = StringToNumber_def trim_def trimStart_def trimEnd_def is_space_def
  signed_decimal_def unsigned_decimal_def is_digit_def digit_val_def exponent_part_def
  scale10_def radix_literal_def all_digits_def Let_def

lemma StringToNumber_samples:
  "StringToNumber ''abc'' = NaN"
  "StringToNumber ''10'' = Fin 10"
  "StringToNumber ''1200'' = Fin 1200"
  "StringToNumber ''2000000'' = Fin 2000000"
  by (simp_all add: number_defs)

lemma handleSubmit_begin_invalid:
  assumes "Sqft (formData st) = [] \<or>
           \<not> (js_le (Fin 50) (Number (Sqft (formData st))) \<and>
              js_le (Number (Sqft (formData st))) (Fin 1000000))"
  shows "\<exists>m. m \<noteq> [] \<and>
           handleSubmit_begin Number st = (st\<lparr>sqftError := Some m, error := None\<rparr>, None)"
proof (cases "Sqft (formData st) = []")
  case True
  from handleSubmit_begin_missing [where Number = Number, OF True] show ?thesis by blast
next
  case False
  define n where "n = Number (Sqft (formData st))"
  from assms False have "isNaN n \<or> js_less n (Fin 50) \<or> js_less (Fin 1000000) n"
    by (simp add: n_def in_range_iff)
  then show ?thesis
  proof (elim disjE)
    assume "isNaN n"
    with handleSubmit_begin_small [where Number = Number, OF False] show ?thesis
      unfolding n_def by blast
  next
    assume "js_less n (Fin 50)"
    with handleSubmit_begin_small [where Number = Number, OF False] show ?thesis
      unfolding n_def by blast
  next
    assume "js_less (Fin 1000000) n"
    with handleSubmit_begin_large [where Number = Number, OF False] show ?thesis
      unfolding n_def by blast
  qed
qed

text \<open>
  C3, as the page has it. The raw text \<open>v\<close> is checked in this order: empty text is
  refused with the reason that the value is missing; text that converts to NaN and text
  that converts to a number below 50 are refused by one test, with one reason (at least
  50 sqft), so text that is not a number has no reason of its own; a number above
  1,000,000 is refused as too large; a number from 50 to 1,000,000 is accepted, and the
  request carries it. The three reasons differ from each other.
\<close>

theorem sqft_validation_rules:
  assumes "Sqft (formData st) = v"
  shows
    "(v = [] \<longrightarrow>
        handleSubmit_begin Number st =
          (st\<lparr>sqftError := Some ''Please enter the square footage.'', error := None\<rparr>, None))
     \<and> (v \<noteq> [] \<and> (isNaN (Number v) \<or> js_less (Number v) (Fin 50)) \<longrightarrow>
        handleSubmit_begin Number st =
          (st\<lparr>sqftError := Some ''Square footage must be at least 50 sqft.'', error := None\<rparr>,
           None))
     \<and> (v \<noteq> [] \<and> js_less (Fin 1000000) (Number v) \<longrightarrow>
        handleSubmit_begin Number st =
          (st\<lparr>sqftError := Some ''Value is too large. Please enter a valid size.'',
              error := None\<rparr>, None))
     \<and> (v \<noteq> [] \<and> js_le (Fin 50) (Number v) \<and> js_le (Number v) (Fin 1000000) \<longrightarrow>
        sqftError (fst (handleSubmit_begin Number st)) = None \<and>
        snd (handleSubmit_begin Number st) =
          Some \<lparr>req_Sqft = Number v, req_Location = Location (formData st),
                req_PropertyType = PropertyType (formData st),
                req_Status = Status (formData st)\<rparr>)
     \<and> distinct [''Please enter the square footage.'',
                  ''Square footage must be at least 50 sqft.'',
                  ''Value is too large. Please enter a valid size.'']"
proof -
  have a: "v = [] \<longrightarrow>
        handleSubmit_begin Number st =
          (st\<lparr>sqftError := Some ''Please enter the square footage.'', error := None\<rparr>, None)"
    using assms handleSubmit_begin_missing [of st Number] by simp
  have b: "v \<noteq> [] \<and> (isNaN (Number v) \<or> js_less (Number v) (Fin 50)) \<longrightarrow>
        handleSubmit_begin Number st =
          (st\<lparr>sqftError := Some ''Square footage must be at least 50 sqft.'', error := None\<rparr>,
           None)"
    using assms handleSubmit_begin_small [of st Number] by simp
  have c: "v \<noteq> [] \<and> js_less (Fin 1000000) (Number v) \<longrightarrow>
        handleSubmit_begin Number st =
          (st\<lparr>sqftError := Some ''Value is too large. Please enter a valid size.'',
              error := None\<rparr>, None)"
    using assms handleSubmit_begin_large [of st Number] by simp
  have d: "v \<noteq> [] \<and> js_le (Fin 50) (Number v) \<and> js_le (Number v) (Fin 1000000) \<longrightarrow>
        sqftError (fst (handleSubmit_begin Number st)) = None \<and>
        snd (handleSubmit_begin Number st) =
          Some \<lparr>req_Sqft = Number v, req_Location = Location (formData st),
                req_PropertyType = PropertyType (formData st),
                req_Status = Status (formData st)\<rparr>"
    using assms handleSubmit_begin_valid [of st Number] by simp
  have e: "distinct [''Please enter the square footage.'',
                  ''Square footage must be at least 50 sqft.'',
                  ''Value is too large. Please enter a valid size.'']"
    by simp
  from a b c d e show ?thesis by blast
qed

theorem sqft_validation_rules_witness:
  "Sqft (formData (handleChange Sqft_field ''abc'' initial_state)) = ''abc''
   \<and> ''abc'' \<noteq> [] \<and> isNaN (StringToNumber ''abc'')
   \<and> handleSubmit_begin StringToNumber (handleChange Sqft_field ''abc'' initial_state) =
       ((handleChange Sqft_field ''abc'' initial_state)
          \<lparr>sqftError := Some ''Square footage must be at least 50 sqft.'', error := None\<rparr>,
        None)
   \<and> Sqft (formData used_state) = ''1200''
   \<and> js_le (Fin 50) (StringToNumber ''1200'') \<and> js_le (StringToNumber ''1200'') (Fin 1000000)
   \<and> snd (handleSubmit_begin StringToNumber used_state) =
       Some \<lparr>req_Sqft = Fin 1200, req_Location = ''Kandy'', req_PropertyType = '''',
             req_Status = ''Sale''\<rparr>
   \<and> Sqft (formData initial_state) = []
   \<and> handleSubmit_begin StringToNumber initial_state =
       (initial_state\<lparr>sqftError := Some ''Please enter the square footage.'', error := None\<rparr>,
        None)
   \<and> js_less (Fin 1000000) (StringToNumber ''2000000'')
   \<and> handleSubmit_begin StringToNumber (handleChange Sqft_field ''2000000'' initial_state) =
       ((handleChange Sqft_field ''2000000'' initial_state)
          \<lparr>sqftError := Some ''Value is too large. Please enter a valid size.'',
           error := None\<rparr>, None)"
proof -
  have h1: "Sqft (formData (handleChange Sqft_field ''abc'' initial_state)) = ''abc''"
    by (simp add: handleChange_def initial_state_def)
  have h2: "Sqft (formData used_state) = ''1200''"
    by (simp add: used_state_def)
  have h3: "Sqft (formData initial_state) = []"
    by (simp add: initial_state_def)
  have h4: "Sqft (formData (handleChange Sqft_field ''2000000'' initial_state)) = ''2000000''"
    by (simp add: handleChange_def initial_state_def)
  have f2: "Location (formData used_state) = ''Kandy''"
    "PropertyType (formData used_state) = []" "Status (formData used_state) = ''Sale''"
    by (simp_all add: used_state_def)
  show ?thesis
    using sqft_validation_rules [where Number = StringToNumber, OF h1]
      sqft_validation_rules [where Number = StringToNumber, OF h2]
      sqft_validation_rules [where Number = StringToNumber, OF h3]
      sqft_validation_rules [where Number = StringToNumber, OF h4]
    by (simp add: h1 h2 h3 h4 f2 StringToNumber_samples)
qed

text \<open>
  C3, as the claim states it, fails: the text \<open>abc\<close> is not a number and the text
  \<open>10\<close> is a number below the minimum, and both are refused with the same reason, the
  one for a value below the minimum.
\<close>

theorem sqft_reasons_not_distinct:
  "StringToNumber ''abc'' = NaN
   \<and> StringToNumber ''10'' = Fin 10
   \<and> sqftError (fst (handleSubmit_begin StringToNumber
         (handleChange Sqft_field ''abc'' initial_state)))
       = Some ''Square footage must be at least 50 sqft.''
   \<and> sqftError (fst (handleSubmit_begin StringToNumber
         (handleChange Sqft_field ''10'' initial_state)))
       = Some ''Square footage must be at least 50 sqft.''"
  by (simp add: handleSubmit_begin_def handleChange_def initial_state_def
      StringToNumber_samples)

text \<open>
  C5. When the square footage fails validation (it is empty, or its number is not
  within 50 to 1,000,000), the submission issues no request and ends with the
  synchronous part; the state it leaves differs from the state before only in the
  field-level message, which is set, and in the top-level message, which is cleared.
  The stored result, the loading flag and the image-error flag are as before.
\<close>

theorem invalid_sqft_aborts:
  assumes "Sqft (formData st) = [] \<or>
           \<not> (js_le (Fin 50) (Number (Sqft (formData st))) \<and>
              js_le (Number (Sqft (formData st))) (Fin 1000000))"
  shows
    "snd (handleSubmit_begin Number st) = None
     \<and> handleSubmit Number outcome st = fst (handleSubmit_begin Number st)
     \<and> handleSubmit Number outcome st =
         st\<lparr>sqftError := sqftError (handleSubmit Number outcome st), error := None\<rparr>
     \<and> sqftError (handleSubmit Number outcome st) \<noteq> None
     \<and> result (handleSubmit Number outcome st) = result st
     \<and> loading (handleSubmit Number outcome st) = loading st
     \<and> shapImgError (handleSubmit Number outcome st) = shapImgError st"
proof -
  from handleSubmit_begin_invalid [where Number = Number and st = st, OF assms]
  obtain m where "handleSubmit_begin Number st = (st\<lparr>sqftError := Some m, error := None\<rparr>, None)"
    by blast
  then show ?thesis by (simp add: handleSubmit_def)
qed

theorem invalid_sqft_aborts_witness:
  "(Sqft (formData (handleChange Sqft_field ''10'' used_state)) = [] \<or>
      \<not> (js_le (Fin 50)
            (StringToNumber (Sqft (formData (handleChange Sqft_field ''10'' used_state)))) \<and>
         js_le (StringToNumber (Sqft (formData (handleChange Sqft_field ''10'' used_state))))
            (Fin 1000000)))
   \<and> snd (handleSubmit_begin StringToNumber (handleChange Sqft_field ''10'' used_state)) = None
   \<and> result (handleSubmit StringToNumber Not_ok (handleChange Sqft_field ''10'' used_state))
       = Some sample_prediction
   \<and> loading (handleSubmit StringToNumber Not_ok (handleChange Sqft_field ''10'' used_state))
       = False
   \<and> shapImgError (handleSubmit StringToNumber Not_ok (handleChange Sqft_field ''10'' used_state))
       = True"
proof -
  have s: "Sqft (formData (handleChange Sqft_field ''10'' used_state)) = ''10''"
    by (simp add: handleChange_def)
  have h: "Sqft (formData (handleChange Sqft_field ''10'' used_state)) = [] \<or>
      \<not> (js_le (Fin 50)
            (StringToNumber (Sqft (formData (handleChange Sqft_field ''10'' used_state)))) \<and>
         js_le (StringToNumber (Sqft (formData (handleChange Sqft_field ''10'' used_state))))
            (Fin 1000000))"
    by (simp add: s StringToNumber_samples)
  have u: "result (handleChange Sqft_field ''10'' used_state) = Some sample_prediction"
    "loading (handleChange Sqft_field ''10'' used_state) = False"
    "shapImgError (handleChange Sqft_field ''10'' used_state) = True"
    by (simp_all add: handleChange_def used_state_def initial_state_def)
  note t = invalid_sqft_aborts [where Number = StringToNumber and outcome = Not_ok, OF h]
  from t have "snd (handleSubmit_begin StringToNumber (handleChange Sqft_field ''10'' used_state))
      = None"
    by (rule conjunct1)
  moreover from t u
  have "result (handleSubmit StringToNumber Not_ok (handleChange Sqft_field ''10'' used_state))
      = Some sample_prediction"
    by metis
  moreover from t u
  have "loading (handleSubmit StringToNumber Not_ok (handleChange Sqft_field ''10'' used_state))
      = False"
    by metis
  moreover from t u
  have "shapImgError (handleSubmit StringToNumber Not_ok
      (handleChange Sqft_field ''10'' used_state)) = True"
    by metis
  ultimately show ?thesis using h by blast
qed

text \<open>
  C8. When the square footage is valid, the request is issued from a state whose
  result is already cleared. If the request succeeds, the decoded prediction is the
  stored result, whatever was stored before. If the backend answers with an error, or
  the request or the decoding of its body fails, a non-empty top-level message is stored
  and the result stays cleared. In every outcome the loading flag is off in the end.
\<close>

theorem valid_submission_outcomes:
  assumes "Sqft (formData st) \<noteq> []"
    and "js_le (Fin 50) (Number (Sqft (formData st)))"
    and "js_le (Number (Sqft (formData st))) (Fin 1000000)"
  shows
    "snd (handleSubmit_begin Number st) =
       Some \<lparr>req_Sqft = Number (Sqft (formData st)), req_Location = Location (formData st),
             req_PropertyType = PropertyType (formData st),
             req_Status = Status (formData st)\<rparr>
     \<and> result (fst (handleSubmit_begin Number st)) = None
     \<and> loading (fst (handleSubmit_begin Number st)) = True
     \<and> result (handleSubmit Number (Ok_json d) st) = Some d
     \<and> error (handleSubmit Number (Ok_json d) st) = None
     \<and> result (handleSubmit Number Not_ok st) = None
     \<and> error (handleSubmit Number Not_ok st) = Some ''Failed to get prediction from the backend.''
     \<and> result (handleSubmit Number (Rejected m) st) = None
     \<and> error (handleSubmit Number (Rejected m) st) = Some (or_else m ''An unexpected error occurred.'')
     \<and> result (handleSubmit Number (Json_rejected m) st) = None
     \<and> error (handleSubmit Number (Json_rejected m) st)
         = Some (or_else m ''An unexpected error occurred.'')
     \<and> or_else m ''An unexpected error occurred.'' \<noteq> []
     \<and> loading (handleSubmit Number outcome st) = False"
proof -
  note b = handleSubmit_begin_valid [where Number = Number and st = st, OF assms]
  have l: "loading (handleSubmit Number outcome st) = False"
    by (cases outcome) (simp_all add: handleSubmit_def b handleSubmit_settle_def)
  have m: "or_else m ''An unexpected error occurred.'' \<noteq> []"
    by (simp add: or_else_def)
  show ?thesis
    using l m by (simp add: handleSubmit_def b handleSubmit_settle_def or_else_def)
qed

theorem valid_submission_outcomes_witness:
  "Sqft (formData used_state) \<noteq> []
   \<and> js_le (Fin 50) (StringToNumber (Sqft (formData used_state)))
   \<and> js_le (StringToNumber (Sqft (formData used_state))) (Fin 1000000)
   \<and> result used_state = Some sample_prediction
   \<and> result (fst (handleSubmit_begin StringToNumber used_state)) = None
   \<and> result (handleSubmit StringToNumber Not_ok used_state) = None
   \<and> error (handleSubmit StringToNumber Not_ok used_state)
       = Some ''Failed to get prediction from the backend.''
   \<and> loading (handleSubmit StringToNumber Not_ok used_state) = False"
proof -
  have s: "Sqft (formData used_state) = ''1200''" by (simp add: used_state_def)
  have h1: "Sqft (formData used_state) \<noteq> []" by (simp add: s)
  have h2: "js_le (Fin 50) (StringToNumber (Sqft (formData used_state)))"
    by (simp add: s StringToNumber_samples)
  have h3: "js_le (StringToNumber (Sqft (formData used_state))) (Fin 1000000)"
    by (simp add: s StringToNumber_samples)
  have r: "result used_state = Some sample_prediction" by (simp add: used_state_def)
  from valid_submission_outcomes [where Number = StringToNumber and outcome = Not_ok
      and d = sample_prediction and m = "[]", OF h1 h2 h3] h1 h2 h3 r
  show ?thesis by simp
qed

text \<open>
  C10. Every submission attempt clears the top-level error message before anything
  else, also one that fails validation and issues no request: whatever message an
  earlier submission left, none is stored once the synchronous part has run.
\<close>

theorem handleSubmit_clears_error:
  "error (fst (handleSubmit_begin Number st)) = None"
  by (simp add: handleSubmit_begin_def Let_def)

section \<open>Properties of the option loader\<close>

lemma fetchOptions_Ok:
  "fetchOptions (Ok_json data) st =
     st\<lparr>formOptions := data,
        formData := apply_defaults (defaultLocation data) (defaultType data)
                      (defaultStatus data) (formData st),
        formOptionsLoading := False\<rparr>"
  by (simp add: fetchOptions_def)

lemma fetchOptions_Not_ok: "fetchOptions Not_ok st = st\<lparr>formOptionsLoading := False\<rparr>"
  by (simp add: fetchOptions_def)

lemma fetchOptions_Rejected:
  "fetchOptions (Rejected m) st =
     st\<lparr>formOptions := fallback_options,
        formData := apply_defaults ''Colombo 03'' ''Office Space'' ''Rent'' (formData st),
        formOptionsLoading := False\<rparr>"
  by (simp add: fetchOptions_def)

lemma fetchOptions_Json_rejected:
  "fetchOptions (Json_rejected m) st =
     st\<lparr>formOptions := fallback_options,
        formData := apply_defaults ''Colombo 03'' ''Office Space'' ''Rent'' (formData st),
        formOptionsLoading := False\<rparr>"
  by (simp add: fetchOptions_def)

lemmas fetchOptions_cases =
  fetchOptions_Ok fetchOptions_Not_ok fetchOptions_Rejected fetchOptions_Json_rejected

lemma apply_defaults_fields:
  "Sqft (apply_defaults dl dt ds fd) = Sqft fd"
  "Location (apply_defaults dl dt ds fd) = or_else (Location fd) dl"
  "PropertyType (apply_defaults dl dt ds fd) = or_else (PropertyType fd) dt"
  "Status (apply_defaults dl dt ds fd) = or_else (Status fd) ds"
  by (simp_all add: apply_defaults_def)

lemma or_else_idem: "or_else (or_else a b) b = or_else a b"
  by (simp add: or_else_def)

lemma apply_defaults_idem:
  "apply_defaults dl dt ds (apply_defaults dl dt ds fd) = apply_defaults dl dt ds fd"
  by (simp add: apply_defaults_def or_else_idem)

text \<open>
  A response that is not \<open>ok\<close> brings no catalog at all: on the fresh page the three
  lists stay empty and no default is selected.
\<close>

lemma fetchOptions_not_ok_leaves_catalog:
  "formOptions (fetchOptions Not_ok st) = formOptions st
   \<and> formData (fetchOptions Not_ok st) = formData st
   \<and> locations (formOptions (fetchOptions Not_ok initial_state)) = []"
  by (simp add: fetchOptions_Not_ok initial_state_def)

text \<open>
  C2, as the page has it. When the request or the decoding of its body fails, the
  catalog is the built-in one, whose three lists are non-empty. When the request
  succeeds, the catalog is the one the backend sent, as it is. In every outcome the
  loading flag of the options is off afterwards.
\<close>

theorem fetchOptions_catalog:
  "formOptions (fetchOptions (Rejected m) st) = fallback_options
   \<and> formOptions (fetchOptions (Json_rejected m) st) = fallback_options
   \<and> locations fallback_options \<noteq> []
   \<and> property_types fallback_options \<noteq> []
   \<and> statuses fallback_options \<noteq> []
   \<and> formOptions (fetchOptions (Ok_json data) st) = data
   \<and> formOptionsLoading (fetchOptions outcome st) = False"
proof -
  have "formOptionsLoading (fetchOptions outcome st) = False"
    by (cases outcome) (simp_all add: fetchOptions_cases)
  then show ?thesis
    by (simp add: fetchOptions_cases fallback_options_def)
qed

text \<open>
  C2, as the claim states it, fails: a successful response may carry empty lists, and
  then the three option lists are empty once initialization has completed.
\<close>

theorem fetchOptions_empty_catalog:
  "locations (formOptions (fetchOptions (Ok_json empty_options) initial_state)) = []
   \<and> property_types (formOptions (fetchOptions (Ok_json empty_options) initial_state)) = []
   \<and> statuses (formOptions (fetchOptions (Ok_json empty_options) initial_state)) = []"
  by (simp add: fetchOptions_Ok empty_options_def)

text \<open>
  C9. Applying the defaults never changes a field that holds a non-empty value, in any
  outcome of the request; an empty field receives the default computed from the
  returned catalog on success and the fixed default in the fallback; the square footage
  is never touched; and applying the same outcome a second time changes nothing.
\<close>

theorem defaults_keep_user_choices:
  "(Location (formData st) \<noteq> [] \<longrightarrow>
      Location (formData (fetchOptions outcome st)) = Location (formData st))
   \<and> (PropertyType (formData st) \<noteq> [] \<longrightarrow>
      PropertyType (formData (fetchOptions outcome st)) = PropertyType (formData st))
   \<and> (Status (formData st) \<noteq> [] \<longrightarrow>
      Status (formData (fetchOptions outcome st)) = Status (formData st))
   \<and> (Location (formData st) = [] \<longrightarrow>
      Location (formData (fetchOptions (Ok_json data) st)) = defaultLocation data \<and>
      Location (formData (fetchOptions (Rejected m) st)) = ''Colombo 03'' \<and>
      Location (formData (fetchOptions (Json_rejected m) st)) = ''Colombo 03'')
   \<and> (PropertyType (formData st) = [] \<longrightarrow>
      PropertyType (formData (fetchOptions (Ok_json data) st)) = defaultType data \<and>
      PropertyType (formData (fetchOptions (Rejected m) st)) = ''Office Space'' \<and>
      PropertyType (formData (fetchOptions (Json_rejected m) st)) = ''Office Space'')
   \<and> (Status (formData st) = [] \<longrightarrow>
      Status (formData (fetchOptions (Ok_json data) st)) = defaultStatus data \<and>
      Status (formData (fetchOptions (Rejected m) st)) = ''Rent'' \<and>
      Status (formData (fetchOptions (Json_rejected m) st)) = ''Rent'')
   \<and> Sqft (formData (fetchOptions outcome st)) = Sqft (formData st)
   \<and> formData (fetchOptions outcome (fetchOptions outcome st))
       = formData (fetchOptions outcome st)"
proof -
  have keep: "(Location (formData st) \<noteq> [] \<longrightarrow>
      Location (formData (fetchOptions outcome st)) = Location (formData st))
   \<and> (PropertyType (formData st) \<noteq> [] \<longrightarrow>
      PropertyType (formData (fetchOptions outcome st)) = PropertyType (formData st))
   \<and> (Status (formData st) \<noteq> [] \<longrightarrow>
      Status (formData (fetchOptions outcome st)) = Status (formData st))
   \<and> Sqft (formData (fetchOptions outcome st)) = Sqft (formData st)"
    by (cases outcome) (simp_all add: fetchOptions_cases apply_defaults_fields or_else_def)
  have again: "formData (fetchOptions outcome (fetchOptions outcome st))
       = formData (fetchOptions outcome st)"
    by (cases outcome) (simp_all add: fetchOptions_cases apply_defaults_idem)
  have fill: "(Location (formData st) = [] \<longrightarrow>
      Location (formData (fetchOptions (Ok_json data) st)) = defaultLocation data \<and>
      Location (formData (fetchOptions (Rejected m) st)) = ''Colombo 03'' \<and>
      Location (formData (fetchOptions (Json_rejected m) st)) = ''Colombo 03'')
   \<and> (PropertyType (formData st) = [] \<longrightarrow>
      PropertyType (formData (fetchOptions (Ok_json data) st)) = defaultType data \<and>
      PropertyType (formData (fetchOptions (Rejected m) st)) = ''Office Space'' \<and>
      PropertyType (formData (fetchOptions (Json_rejected m) st)) = ''Office Space'')
   \<and> (Status (formData st) = [] \<longrightarrow>
      Status (formData (fetchOptions (Ok_json data) st)) = defaultStatus data \<and>
      Status (formData (fetchOptions (Rejected m) st)) = ''Rent'' \<and>
      Status (formData (fetchOptions (Json_rejected m) st)) = ''Rent'')"
    by (simp add: fetchOptions_cases apply_defaults_fields or_else_def)
  from keep again fill show ?thesis by blast
qed

lemma fallback_defaults:
  "defaultLocation fallback_options = ''Colombo 01''"
  "defaultType fallback_options = ''Office Space''"
  "defaultStatus fallback_options = ''Rent''"
  by code_simp+

theorem defaults_keep_user_choices_witness:
  "Location (formData used_state) \<noteq> []
   \<and> Location (formData (fetchOptions (Ok_json fallback_options) used_state)) = ''Kandy''
   \<and> Status (formData used_state) \<noteq> []
   \<and> Status (formData (fetchOptions (Rejected ''Failed to fetch'') used_state)) = ''Sale''
   \<and> PropertyType (formData used_state) = []
   \<and> PropertyType (formData (fetchOptions (Ok_json fallback_options) used_state))
       = ''Office Space''
   \<and> PropertyType (formData (fetchOptions (Rejected ''Failed to fetch'') used_state))
       = ''Office Space''
   \<and> Location (formData initial_state) = []
   \<and> Location (formData (fetchOptions (Ok_json fallback_options) initial_state))
       = ''Colombo 01''
   \<and> Location (formData (fetchOptions (Rejected ''Failed to fetch'') initial_state))
       = ''Colombo 03''
   \<and> PropertyType (formData initial_state) = []
   \<and> Status (formData initial_state) = []
   \<and> Status (formData (fetchOptions (Ok_json fallback_options) initial_state)) = ''Rent''"
proof -
  have u: "Location (formData used_state) = ''Kandy''"
    "Status (formData used_state) = ''Sale''" "PropertyType (formData used_state) = []"
    by (simp_all add: used_state_def)
  have i: "Location (formData initial_state) = []" "Status (formData initial_state) = []"
    "PropertyType (formData initial_state) = []"
    by (simp_all add: initial_state_def)
  show ?thesis
    using defaults_keep_user_choices [of used_state "Ok_json fallback_options"
        fallback_options "''Failed to fetch''"]
      defaults_keep_user_choices [of used_state "Rejected ''Failed to fetch''"
        fallback_options "''Failed to fetch''"]
      defaults_keep_user_choices [of initial_state "Ok_json fallback_options"
        fallback_options "''Failed to fetch''"]
    by (simp add: u i fallback_defaults)
qed

section \<open>Properties of the market sync engine\<close>

lemma fetchMarketData_settle_Ok:
  "fetchMarketData_settle (Ok_json data) st =
     (if market_locations data = [] then
        st\<lparr>marketData := None,
           marketError := Some ''No market data found for this category.'',
           marketLoading := False\<rparr>
      else st\<lparr>marketData := Some data, marketLoading := False\<rparr>)"
  by (simp add: fetchMarketData_settle_def)

lemma fetchMarketData_settle_Not_ok:
  "fetchMarketData_settle Not_ok st =
     st\<lparr>marketError :=
          Some ''Backend returned an error. Make sure the backend server is running.'',
        marketLoading := False\<rparr>"
  by (simp add: fetchMarketData_settle_def)

lemma fetchMarketData_settle_Rejected:
  "fetchMarketData_settle (Rejected m) st =
     st\<lparr>marketError :=
          Some ''Could not connect to the backend. Make sure it is running on port 8000.'',
        marketLoading := False\<rparr>"
  by (simp add: fetchMarketData_settle_def)

lemma fetchMarketData_settle_Json_rejected:
  "fetchMarketData_settle (Json_rejected m) st =
     st\<lparr>marketError :=
          Some ''Could not connect to the backend. Make sure it is running on port 8000.'',
        marketLoading := False\<rparr>"
  by (simp add: fetchMarketData_settle_def)

lemmas fetchMarketData_settle_cases =
  fetchMarketData_settle_Ok fetchMarketData_settle_Not_ok fetchMarketData_settle_Rejected
  fetchMarketData_settle_Json_rejected

lemma fetchMarketData_begin_state:
  "fst (fetchMarketData_begin st) = st\<lparr>marketLoading := True, marketError := None\<rparr>"
  by (simp add: fetchMarketData_begin_def)

text \<open>
  What holds of every request that ends in a failure: the loading flag is cleared, the
  message differs from the one for a category without data, and the stored snapshot is
  the one from before.
\<close>

lemma fetchMarketData_failure:
  "marketLoading (fetchMarketData_settle Not_ok st) = False
   \<and> marketLoading (fetchMarketData_settle (Rejected m) st) = False
   \<and> marketError (fetchMarketData_settle Not_ok st)
       \<noteq> Some ''No market data found for this category.''
   \<and> marketError (fetchMarketData_settle (Rejected m) st)
       \<noteq> Some ''No market data found for this category.''
   \<and> marketData (fetchMarketData_settle Not_ok st) = marketData st
   \<and> marketData (fetchMarketData_settle (Rejected m) st) = marketData st"
  by (simp add: fetchMarketData_settle_cases)

text \<open>
  C1, as the page has it. A settling request stores its snapshot whatever has happened
  since it was issued: when a first request is issued, a field is edited, a second
  request is issued and settles, and the first request then settles with at least one
  location, the stored snapshot is the result of the first request. The response that
  settles last decides the stored state.
\<close>

theorem last_settled_response_wins:
  assumes "market_locations d1 \<noteq> []"
  shows "marketData
           (fetchMarketData_settle (Ok_json d1)
              (fetchMarketData_settle r2
                 (fst (fetchMarketData_begin
                    (handleChange name v (fst (fetchMarketData_begin st)))))))
         = Some d1"
  using assms by (simp add: fetchMarketData_settle_Ok)

theorem last_settled_response_wins_witness:
  "market_locations colombo_market \<noteq> []
   \<and> marketData
       (fetchMarketData_settle (Ok_json colombo_market)
          (fetchMarketData_settle (Ok_json kandy_market)
             (fst (fetchMarketData_begin
                (handleChange Location_field ''Kandy''
                   (fst (fetchMarketData_begin
                      (handleChange Location_field ''Colombo 03'' initial_state))))))))
     = Some colombo_market"
proof -
  have h: "market_locations colombo_market \<noteq> []" by (simp add: colombo_market_def)
  from last_settled_response_wins [OF h] h show ?thesis by blast
qed

text \<open>
  C1, as the claim states it, fails: in the run with two overlapping requests the
  latest request asks for Kandy and its result has arrived, yet the stored snapshot is
  the Colombo result of the superseded request.
\<close>

theorem stale_response_overwrites:
  "q_location (snd (fetchMarketData_begin second_issued)) = ''Kandy''
   \<and> Location (formData stale_run) = ''Kandy''
   \<and> marketData stale_run = Some colombo_market
   \<and> marketData stale_run \<noteq> Some kandy_market"
  by (simp add: stale_run_def second_issued_def fetchMarketData_settle_Ok
      fetchMarketData_begin_def handleChange_def colombo_market_def kandy_market_def
      initial_state_def)

text \<open>
  C6 at a concrete run: a first request has stored the Colombo snapshot; the next
  request is answered with an error, or cannot reach the backend. The message is set and
  the loading flag is cleared, but the snapshot is not: the page still holds the
  Colombo snapshot.
\<close>

theorem failed_refresh_keeps_snapshot:
  "marketData failed_refresh = Some colombo_market
   \<and> marketError failed_refresh
       = Some ''Backend returned an error. Make sure the backend server is running.''
   \<and> marketLoading failed_refresh = False
   \<and> marketData unreachable_refresh = Some colombo_market
   \<and> marketError unreachable_refresh
       = Some ''Could not connect to the backend. Make sure it is running on port 8000.''
   \<and> marketLoading unreachable_refresh = False"
  by (simp add: failed_refresh_def unreachable_refresh_def fetchMarketData_settle_cases
      fetchMarketData_begin_state colombo_market_def)

text \<open>
  C7. A successful response without locations clears the stored snapshot and reports
  that there is no data for the category; that message is neither the one for a backend
  error nor the one for an unreachable backend.
\<close>

theorem empty_locations_clear_snapshot:
  assumes "market_locations data = []"
  shows "marketData (fetchMarketData_settle (Ok_json data) st) = None
     \<and> marketError (fetchMarketData_settle (Ok_json data) st)
         = Some ''No market data found for this category.''
     \<and> marketLoading (fetchMarketData_settle (Ok_json data) st) = False
     \<and> marketError (fetchMarketData_settle (Ok_json data) st)
         \<noteq> marketError (fetchMarketData_settle Not_ok st')
     \<and> marketError (fetchMarketData_settle (Ok_json data) st)
         \<noteq> marketError (fetchMarketData_settle (Rejected m) st')
     \<and> marketError (fetchMarketData_settle (Ok_json data) st)
         \<noteq> marketError (fetchMarketData_settle (Json_rejected m) st')"
  using assms by (simp add: fetchMarketData_settle_cases)

theorem empty_locations_clear_snapshot_witness:
  "market_locations no_market = []
   \<and> marketData used_state = Some colombo_market
   \<and> marketData (fetchMarketData_settle (Ok_json no_market) used_state) = None
   \<and> marketError (fetchMarketData_settle (Ok_json no_market) used_state)
       = Some ''No market data found for this category.''"
proof -
  have h: "market_locations no_market = []" by (simp add: no_market_def)
  have u: "marketData used_state = Some colombo_market" by (simp add: used_state_def)
  from empty_locations_clear_snapshot [OF h, of used_state] h u show ?thesis by blast
qed

end
